theory Spec2Isabelle
  imports Main "HOL-Library.Sublist" "HOL-Library.Multiset" "HOL-Library.List_Lexorder"
begin

section \<open>Python strings and values\<close>

text \<open>
  A Python \<^verbatim>\<open>str\<close> is a sequence of Unicode code points, and two strings compare
  lexicographically by code point. A string is therefore a list of code points (natural
  numbers), ordered by the lexicographic order of \<open>HOL-Library.List_Lexorder\<close>, in which a
  proper prefix is smaller. ASCII text is written as a HOL string literal and embedded
  with \<open>ascii\<close>; Cyrillic text and the dash are given by their code points.
\<close>

type_synonym pystr = "nat list"

definition ascii :: "string \<Rightarrow> pystr" where
  "ascii s = map of_char s"

text \<open>The values passed to a template: strings and integers, and Python's \<^verbatim>\<open>str()\<close> on them.\<close>

datatype pyval = PyStr pystr | PyInt int

fun digits :: "nat \<Rightarrow> pystr" where
  "digits n = (if n < 10 then [48 + n] else digits (n div 10) @ [48 + n mod 10])"

declare digits.simps [simp del]

definition str_int :: "int \<Rightarrow> pystr" where
  "str_int i = (if i < 0 then 45 # digits (nat (- i)) else digits (nat i))"

fun py_str :: "pyval \<Rightarrow> pystr" where
  "py_str (PyStr s) = s"
| "py_str (PyInt i) = str_int i"

text \<open>The exceptions the code can raise.\<close>

datatype error = TypeError | AttributeError | IndexError | KeyError pystr | ValueError

text \<open>
  \<^verbatim>\<open>s.split(sep)\<close> for a separator of one code point, and \<^verbatim>\<open>xs[0]\<close>, which raises
  IndexError on an empty list.
\<close>

fun str_split :: "nat \<Rightarrow> pystr \<Rightarrow> pystr list" where
  "str_split sep [] = [[]]"
| "str_split sep (c # cs) =
     (if c = sep then [] # str_split sep cs
      else (case str_split sep cs of [] \<Rightarrow> [[c]] | w # ws \<Rightarrow> (c # w) # ws))"

definition getitem0 :: "'a list \<Rightarrow> error + 'a" where
  "getitem0 xs = (case xs of [] \<Rightarrow> Inl IndexError | x # _ \<Rightarrow> Inr x)"

section \<open>string.Template.substitute\<close>

text \<open>
  The standard library's \<^verbatim>\<open>Template(t).substitute(**kws)\<close> scans \<open>t\<close> from left to right
  for the delimiter \<^verbatim>\<open>$\<close> (code point 36) followed by one of: a second \<^verbatim>\<open>$\<close> (an escaped
  delimiter), an ASCII identifier \<^verbatim>\<open>[_a-zA-Z][_a-zA-Z0-9]*\<close> taken as long as possible, or
  such an identifier in braces. Anything else after the delimiter raises ValueError. A
  placeholder is replaced by \<^verbatim>\<open>str(kws[name])\<close>; a name that is not a key raises
  KeyError. The substituted text is not scanned again. The first failure, from the left,
  is the one raised.
\<close>

definition is_id_start :: "nat \<Rightarrow> bool" where
  "is_id_start c = (c = 95 \<or> (97 \<le> c \<and> c \<le> 122) \<or> (65 \<le> c \<and> c \<le> 90))"

definition is_id_char :: "nat \<Rightarrow> bool" where
  "is_id_char c = (is_id_start c \<or> (48 \<le> c \<and> c \<le> 57))"

definition emit :: "pystr \<Rightarrow> error + pystr \<Rightarrow> error + pystr" where
  "emit s r = (case r of Inl e \<Rightarrow> Inl e | Inr t \<Rightarrow> Inr (s @ t))"

fun scan_text :: "(pystr \<rightharpoonup> pyval) \<Rightarrow> pystr \<Rightarrow> error + pystr"
and scan_delim :: "(pystr \<rightharpoonup> pyval) \<Rightarrow> pystr \<Rightarrow> error + pystr"
and scan_named :: "(pystr \<rightharpoonup> pyval) \<Rightarrow> pystr \<Rightarrow> pystr \<Rightarrow> error + pystr"
and scan_braced :: "(pystr \<rightharpoonup> pyval) \<Rightarrow> pystr \<Rightarrow> pystr \<Rightarrow> error + pystr"
where
  "scan_text kw [] = Inr []"
| "scan_text kw (c # cs) =
     (if c = 36 then scan_delim kw cs else emit [c] (scan_text kw cs))"
| "scan_delim kw [] = Inl ValueError"
| "scan_delim kw (c # cs) =
     (if c = 36 then emit [36] (scan_text kw cs)
      else if is_id_start c then scan_named kw [c] cs
      else if c = 123 then scan_braced kw [] cs
      else Inl ValueError)"
| "scan_named kw name [] =
     (case kw name of None \<Rightarrow> Inl (KeyError name) | Some v \<Rightarrow> Inr (py_str v))"
| "scan_named kw name (c # cs) =
     (if is_id_char c then scan_named kw (name @ [c]) cs
      else (case kw name of None \<Rightarrow> Inl (KeyError name)
            | Some v \<Rightarrow> emit (py_str v) (scan_text kw (c # cs))))"
| "scan_braced kw name [] = Inl ValueError"
| "scan_braced kw name (c # cs) =
     (if name = [] then (if is_id_start c then scan_braced kw [c] cs else Inl ValueError)
      else if is_id_char c then scan_braced kw (name @ [c]) cs
      else if c = 125 then
        (case kw name of None \<Rightarrow> Inl (KeyError name)
         | Some v \<Rightarrow> emit (py_str v) (scan_text kw cs))
      else Inl ValueError)"

definition Template_substitute :: "pystr \<Rightarrow> (string \<times> pyval) list \<Rightarrow> error + pystr" where
  "Template_substitute template kws = scan_text (map_of (map (\<lambda>(k, v). (ascii k, v)) kws)) template"

section \<open>The record kinds of models.py\<close>

record BookModel =
  authors :: pystr
  title :: pystr
  edition :: "pystr option"
  city :: pystr
  publishing_house :: pystr
  year :: int
  pages :: int

record InternetResourceModel =
  article :: pystr
  website :: pystr
  link :: pystr
  access_date :: pystr

record ArticlesCollectionModel =
  authors :: pystr
  article_title :: pystr
  collection_title :: pystr
  city :: pystr
  publishing_house :: pystr
  year :: int
  pages :: pystr

record JournalArticleModel =
  authors :: pystr
  article_title :: pystr
  journal_title :: pystr
  year :: int
  release :: int
  pages :: pystr

record DissertationModel =
  author :: pystr
  title :: pystr
  degree :: pystr
  speciality :: pystr
  code :: pystr
  city :: pystr
  year :: int
  pages :: int

text \<open>
  A value of the formatter's input type \<^verbatim>\<open>list[BaseModel]\<close> is an instance of one of the
  five classes above or of some other subclass of \<^verbatim>\<open>BaseModel\<close>. Of such a foreign
  instance the model keeps the class name only, not its fields.
\<close>

datatype BaseModel =
    Book BookModel
  | InternetResource InternetResourceModel
  | ArticlesCollection ArticlesCollectionModel
  | JournalArticle JournalArticleModel
  | Dissertation DissertationModel
  | Other string

text \<open>\<^verbatim>\<open>type(model).__name__\<close>\<close>

fun type_name :: "BaseModel \<Rightarrow> string" where
  "type_name (Book _) = ''BookModel''"
| "type_name (InternetResource _) = ''InternetResourceModel''"
| "type_name (ArticlesCollection _) = ''ArticlesCollectionModel''"
| "type_name (JournalArticle _) = ''JournalArticleModel''"
| "type_name (Dissertation _) = ''DissertationModel''"
| "type_name (Other n) = n"

text \<open>The constraints \<^verbatim>\<open>Field(..., gt=0)\<close> that a constructed record satisfies.\<close>

fun validated :: "BaseModel \<Rightarrow> bool" where
  "validated (Book d) = (0 < BookModel.year d \<and> 0 < BookModel.pages d)"
| "validated (InternetResource d) = True"
| "validated (ArticlesCollection d) = (0 < ArticlesCollectionModel.year d)"
| "validated (JournalArticle d) = (0 < JournalArticleModel.year d \<and> 0 < release d)"
| "validated (Dissertation d) = (0 < DissertationModel.year d \<and> 0 < DissertationModel.pages d)"
| "validated (Other n) = True"

text \<open>The five record kinds of the repository.\<close>

fun supported :: "BaseModel \<Rightarrow> bool" where
  "supported (Other n) = False"
| "supported _ = True"

section \<open>The logger\<close>

text \<open>
  Modelled from the spec: the module \<^verbatim>\<open>logger\<close> is not among the sources. The spec calls
  its effect an optional diagnostic log entry naming the record being formatted, with no
  influence on the result. The log is a list of entries, each the message format and its
  argument, and \<^verbatim>\<open>logger.info\<close> appends one.
\<close>

type_synonym log = "(pystr \<times> pystr) list"

definition logger_info :: "pystr \<Rightarrow> pystr \<Rightarrow> log \<Rightarrow> log" where
  "logger_info msg arg lg = lg @ [(msg, arg)]"

section \<open>The formatters of gost.py\<close>

text \<open>
  Code points used by the templates: 8211 is the en dash, 8470 the numero sign, 1089 and
  1057 the Cyrillic small and capital letter es; \<open>izd\<close> is the Cyrillic word of the
  edition clause (1080, 1079, 1076), \<open>nauk\<close> the word of the dissertation template and
  \<open>data_obrashcheniya\<close> the two words of the internet-resource template.
\<close>

definition izd :: pystr where
  "izd = [1080, 1079, 1076]"

definition nauk :: pystr where
  "nauk = [1085, 1072, 1091, 1082]"

definition data_obrashcheniya :: pystr where
  "data_obrashcheniya = [1076, 1072, 1090, 1072, 32, 1086, 1073, 1088, 1072, 1097, 1077, 1085, 1080, 1103]"

text \<open>The log messages: a common first word, the name of the kind, and \<^verbatim>\<open> "%s" ...\<close>.\<close>

definition log_message :: "pystr \<Rightarrow> pystr" where
  "log_message kind =
     [1060, 1086, 1088, 1084, 1072, 1090, 1080, 1088, 1086, 1074, 1072, 1085, 1080, 1077, 32]
     @ kind @ ascii '' \"%s\" ...''"

subsection \<open>GOSTBook\<close>

definition GOSTBook_template :: pystr where
  "GOSTBook_template =
     ascii ''$authors $title. '' @ [8211] @ ascii '' $edition$city: $publishing_house, $year. ''
     @ [8211] @ ascii '' $pages '' @ [1089] @ ascii ''.''"

text \<open>
  The method returns the f-string made of \<^verbatim>\<open>{self.data.edition}\<close>, a space, the word \<open>izd\<close>,
  a full stop, a space, the dash and a space \<^verbatim>\<open>if self.data.edition else ""\<close>: \<^verbatim>\<open>None\<close> and
  the empty string are both false.
\<close>

definition GOSTBook_get_edition :: "BookModel \<Rightarrow> pystr" where
  "GOSTBook_get_edition d =
     (case edition d of
        None \<Rightarrow> []
      | Some e \<Rightarrow> if e = [] then [] else e @ ascii '' '' @ izd @ ascii ''. '' @ [8211] @ ascii '' '')"

definition GOSTBook_substitute :: "BookModel \<Rightarrow> log \<Rightarrow> (error + pystr) \<times> log" where
  "GOSTBook_substitute d lg =
     (let lg' = logger_info (log_message [1082, 1085, 1080, 1075, 1080]) (BookModel.title d) lg
      in (Template_substitute GOSTBook_template
            [(''authors'', PyStr (BookModel.authors d)),
             (''title'', PyStr (BookModel.title d)),
             (''edition'', PyStr (GOSTBook_get_edition d)),
             (''city'', PyStr (BookModel.city d)),
             (''publishing_house'', PyStr (BookModel.publishing_house d)),
             (''year'', PyInt (BookModel.year d)),
             (''pages'', PyInt (BookModel.pages d))], lg'))"

subsection \<open>GOSTInternetResource\<close>

definition GOSTInternetResource_template :: pystr where
  "GOSTInternetResource_template =
     ascii ''$article // $website URL: $link ('' @ data_obrashcheniya @ ascii '': $access_date).''"

definition GOSTInternetResource_substitute ::
  "InternetResourceModel \<Rightarrow> log \<Rightarrow> (error + pystr) \<times> log" where
  "GOSTInternetResource_substitute d lg =
     (let lg' = logger_info
            (log_message [1080, 1085, 1090, 1077, 1088, 1085, 1077, 1090, 45,
                          1088, 1077, 1089, 1091, 1088, 1089, 1072]) (article d) lg
      in (Template_substitute GOSTInternetResource_template
            [(''article'', PyStr (article d)),
             (''website'', PyStr (website d)),
             (''link'', PyStr (link d)),
             (''access_date'', PyStr (access_date d))], lg'))"

subsection \<open>GOSTCollectionArticle\<close>

definition GOSTCollectionArticle_template :: pystr where
  "GOSTCollectionArticle_template =
     ascii ''$authors $article_title // $collection_title. '' @ [8211]
     @ ascii '' $city: $publishing_house, $year. '' @ [8211] @ ascii '' '' @ [1057]
     @ ascii ''. $pages.''"

definition GOSTCollectionArticle_substitute ::
  "ArticlesCollectionModel \<Rightarrow> log \<Rightarrow> (error + pystr) \<times> log" where
  "GOSTCollectionArticle_substitute d lg =
     (let lg' = logger_info
            (log_message [1089, 1073, 1086, 1088, 1085, 1080, 1082, 1072, 32,
                          1089, 1090, 1072, 1090, 1077, 1081])
            (ArticlesCollectionModel.article_title d) lg
      in (Template_substitute GOSTCollectionArticle_template
            [(''authors'', PyStr (ArticlesCollectionModel.authors d)),
             (''article_title'', PyStr (ArticlesCollectionModel.article_title d)),
             (''collection_title'', PyStr (collection_title d)),
             (''city'', PyStr (ArticlesCollectionModel.city d)),
             (''publishing_house'', PyStr (ArticlesCollectionModel.publishing_house d)),
             (''year'', PyInt (ArticlesCollectionModel.year d)),
             (''pages'', PyStr (ArticlesCollectionModel.pages d))], lg'))"

subsection \<open>GOSTJournalArticle\<close>

definition GOSTJournalArticle_template :: pystr where
  "GOSTJournalArticle_template =
     ascii ''$author $article_title / $authors // $journal_title. '' @ [8211]
     @ ascii '' $year. '' @ [8211] @ ascii '' '' @ [8470] @ ascii '' $release. '' @ [8211]
     @ ascii '' '' @ [1057] @ ascii ''. $pages.''"

text \<open>
  \<^verbatim>\<open>self.data.authors.split(",")[0] if "," in self.data.authors else self.data.authors\<close>;
  44 is the comma.
\<close>

definition GOSTJournalArticle_get_author :: "JournalArticleModel \<Rightarrow> error + pystr" where
  "GOSTJournalArticle_get_author d =
     (if 44 \<in> set (JournalArticleModel.authors d)
      then getitem0 (str_split 44 (JournalArticleModel.authors d))
      else Inr (JournalArticleModel.authors d))"

definition GOSTJournalArticle_substitute ::
  "JournalArticleModel \<Rightarrow> log \<Rightarrow> (error + pystr) \<times> log" where
  "GOSTJournalArticle_substitute d lg =
     (let lg' = logger_info
            (log_message [1089, 1090, 1072, 1090, 1100, 1080, 32, 1080, 1079, 32,
                          1078, 1091, 1088, 1085, 1072, 1083, 1072])
            (JournalArticleModel.article_title d) lg
      in case GOSTJournalArticle_get_author d of
           Inl e \<Rightarrow> (Inl e, lg')
         | Inr a \<Rightarrow>
            (Template_substitute GOSTJournalArticle_template
               [(''author'', PyStr a),
                (''authors'', PyStr (JournalArticleModel.authors d)),
                (''article_title'', PyStr (JournalArticleModel.article_title d)),
                (''journal_title'', PyStr (journal_title d)),
                (''year'', PyInt (JournalArticleModel.year d)),
                (''release'', PyInt (release d)),
                (''pages'', PyStr (JournalArticleModel.pages d))], lg'))"

subsection \<open>GOSTDissertation\<close>

definition GOSTDissertation_template :: pystr where
  "GOSTDissertation_template =
     ascii ''$author $title: $degree $speciality '' @ nauk @ ascii '': $code / $author ''
     @ [8211] @ ascii '' $city, $year. '' @ [8211] @ ascii '' $pages '' @ [1089] @ ascii ''.''"

definition GOSTDissertation_substitute ::
  "DissertationModel \<Rightarrow> log \<Rightarrow> (error + pystr) \<times> log" where
  "GOSTDissertation_substitute d lg =
     (let lg' = logger_info
            (log_message [1076, 1080, 1089, 1089, 1077, 1088, 1090, 1072, 1094, 1080, 1080])
            (DissertationModel.title d) lg
      in (Template_substitute GOSTDissertation_template
            [(''author'', PyStr (author d)),
             (''title'', PyStr (DissertationModel.title d)),
             (''degree'', PyStr (degree d)),
             (''speciality'', PyStr (speciality d)),
             (''code'', PyStr (code d)),
             (''city'', PyStr (DissertationModel.city d)),
             (''year'', PyInt (DissertationModel.year d)),
             (''pages'', PyInt (DissertationModel.pages d))], lg'))"

section \<open>The citation list formatter\<close>

text \<open>The five formatter classes, and the dictionary \<^verbatim>\<open>formatters_map\<close> from class names to them.\<close>

datatype style_class =
  GOSTBook | GOSTInternetResource | GOSTCollectionArticle | GOSTJournalArticle | GOSTDissertation

definition formatters_map :: "string \<rightharpoonup> style_class" where
  "formatters_map = map_of
     [(''BookModel'', GOSTBook),
      (''InternetResourceModel'', GOSTInternetResource),
      (''ArticlesCollectionModel'', GOSTCollectionArticle),
      (''JournalArticleModel'', GOSTJournalArticle),
      (''DissertationModel'', GOSTDissertation)]"

text \<open>
  The call \<^verbatim>\<open>self.substitute()\<close> on an instance of class \<open>cls\<close> holding the record \<open>m\<close>.
  Through \<open>formatters_map\<close> a class only ever meets its own record kind or a foreign
  instance whose class name equals a registered one; reading a field of a foreign
  instance, whose fields the model does not keep, raises AttributeError before
  anything is logged.
\<close>

fun substitute :: "style_class \<Rightarrow> BaseModel \<Rightarrow> log \<Rightarrow> (error + pystr) \<times> log" where
  "substitute GOSTBook (Book d) lg = GOSTBook_substitute d lg"
| "substitute GOSTInternetResource (InternetResource d) lg = GOSTInternetResource_substitute d lg"
| "substitute GOSTCollectionArticle (ArticlesCollection d) lg = GOSTCollectionArticle_substitute d lg"
| "substitute GOSTJournalArticle (JournalArticle d) lg = GOSTJournalArticle_substitute d lg"
| "substitute GOSTDissertation (Dissertation d) lg = GOSTDissertation_substitute d lg"
| "substitute cls m lg = (Inl AttributeError, lg)"

text \<open>
  Modelled from the spec: the base class \<^verbatim>\<open>BaseCitationStyle\<close> (formatters/styles/base.py)
  is not among the sources. By the spec, constructing a formatter for a record invokes
  the substitution, and the resulting string is what the list is sorted by: an instance
  holds its record as \<open>data\<close> and the substituted string as \<open>formatted\<close>.
\<close>

record BaseCitationStyle =
  data :: BaseModel
  formatted :: pystr

definition BaseCitationStyle_init ::
  "style_class \<Rightarrow> BaseModel \<Rightarrow> log \<Rightarrow> (error + BaseCitationStyle) \<times> log" where
  "BaseCitationStyle_init cls m lg =
     (case substitute cls m lg of
        (Inl e, lg') \<Rightarrow> (Inl e, lg')
      | (Inr s, lg') \<Rightarrow> (Inr \<lparr>data = m, formatted = s\<rparr>, lg'))"

text \<open>
  The expression \<^verbatim>\<open>self.formatters_map.get(type(model).__name__)(model)\<close>: \<^verbatim>\<open>dict.get\<close>
  returns \<^verbatim>\<open>None\<close> for a class name that is not a key, and calling \<^verbatim>\<open>None\<close> raises
  TypeError.
\<close>

definition make_formatter :: "BaseModel \<Rightarrow> log \<Rightarrow> (error + BaseCitationStyle) \<times> log" where
  "make_formatter m lg =
     (case formatters_map (type_name m) of
        None \<Rightarrow> (Inl TypeError, lg)
      | Some cls \<Rightarrow> BaseCitationStyle_init cls m lg)"

text \<open>The loop of \<^verbatim>\<open>__init__\<close>, appending to \<^verbatim>\<open>formatted_items\<close>; an exception leaves it.\<close>

fun init_loop ::
  "BaseModel list \<Rightarrow> BaseCitationStyle list \<Rightarrow> log \<Rightarrow> (error + BaseCitationStyle list) \<times> log" where
  "init_loop [] formatted_items lg = (Inr formatted_items, lg)"
| "init_loop (m # models) formatted_items lg =
     (case make_formatter m lg of
        (Inl e, lg') \<Rightarrow> (Inl e, lg')
      | (Inr item, lg') \<Rightarrow> init_loop models (formatted_items @ [item]) lg')"

record GOSTCitationFormatter =
  formatted_items :: "BaseCitationStyle list"

definition GOSTCitationFormatter_init ::
  "BaseModel list \<Rightarrow> log \<Rightarrow> (error + GOSTCitationFormatter) \<times> log" where
  "GOSTCitationFormatter_init models lg =
     (case init_loop models [] lg of
        (Inl e, lg') \<Rightarrow> (Inl e, lg')
      | (Inr items, lg') \<Rightarrow> (Inr \<lparr>formatted_items = items\<rparr>, lg'))"

text \<open>
  \<^verbatim>\<open>sorted(self.formatted_items, key=lambda item: item.formatted)\<close>: Python's \<^verbatim>\<open>sorted\<close> is
  a stable ascending sort by the key; \<open>sort_key\<close> is the stable insertion sort of HOL.
\<close>

definition GOSTCitationFormatter_format :: "GOSTCitationFormatter \<Rightarrow> BaseCitationStyle list" where
  "GOSTCitationFormatter_format self = sort_key formatted (formatted_items self)"

text \<open>The whole batch, \<^verbatim>\<open>GOSTCitationFormatter(models).format()\<close>.\<close>

definition format_models ::
  "BaseModel list \<Rightarrow> log \<Rightarrow> (error + BaseCitationStyle list) \<times> log" where
  "format_models models lg =
     (case GOSTCitationFormatter_init models lg of
        (Inl e, lg') \<Rightarrow> (Inl e, lg')
      | (Inr self, lg') \<Rightarrow> (Inr (GOSTCitationFormatter_format self), lg'))"

section \<open>Example records\<close>

text \<open>
  The records of the docstrings of models.py. \<open>ivanov_petrov\<close> is the authors string with
  two authors separated by a comma, \<open>nauka_kak_iskusstvo\<close> the title.
\<close>

definition ivanov_petrov :: pystr where
  "ivanov_petrov =
     [1048, 1074, 1072, 1085, 1086, 1074, 32, 1048, 46, 1052, 46, 44, 32,
      1055, 1077, 1090, 1088, 1086, 1074, 32, 1057, 46, 1053, 46]"

definition ivanov :: pystr where
  "ivanov = [1048, 1074, 1072, 1085, 1086, 1074, 32, 1048, 46, 1052, 46]"

definition nauka_kak_iskusstvo :: pystr where
  "nauka_kak_iskusstvo =
     [1053, 1072, 1091, 1082, 1072, 32, 1082, 1072, 1082, 32,
      1080, 1089, 1082, 1091, 1089, 1089, 1090, 1074, 1086]"

definition example_book :: BookModel where
  "example_book =
     \<lparr>BookModel.authors = ivanov_petrov,
      title = nauka_kak_iskusstvo,
      edition = Some [51, 45, 1077],
      city = [1057, 1055, 1073, 46],
      publishing_house = [1055, 1088, 1086, 1089, 1074, 1077, 1097, 1077, 1085, 1080, 1077],
      year = 2020,
      pages = 999\<rparr>"

definition example_internet_resource :: InternetResourceModel where
  "example_internet_resource =
     \<lparr>article = nauka_kak_iskusstvo,
      website = [1042, 1077, 1076, 1086, 1084, 1086, 1089, 1090, 1080],
      link = ascii ''https://www.vedomosti.ru/'',
      access_date = ascii ''01.01.2021''\<rparr>"

definition example_journal_article :: JournalArticleModel where
  "example_journal_article =
     \<lparr>JournalArticleModel.authors = ivanov_petrov,
      article_title = nauka_kak_iskusstvo,
      journal_title =
        [1054, 1073, 1088, 1072, 1079, 1086, 1074, 1072, 1085, 1080, 1077, 32, 1080, 32,
         1085, 1072, 1091, 1082, 1072],
      year = 2020,
      release = 10,
      pages = ascii ''25-30''\<rparr>"

text \<open>The text the spec gives for \<open>example_book\<close>.\<close>

definition example_book_citation :: pystr where
  "example_book_citation =
     [1048, 1074, 1072, 1085, 1086, 1074, 32, 1048, 46, 1052, 46, 44, 32,
      1055, 1077, 1090, 1088, 1086, 1074, 32, 1057, 46, 1053, 46, 32,
      1053, 1072, 1091, 1082, 1072, 32, 1082, 1072, 1082, 32,
      1080, 1089, 1082, 1091, 1089, 1089, 1090, 1074, 1086, 46, 32, 8211, 32,
      51, 45, 1077, 32, 1080, 1079, 1076, 46, 32, 8211, 32,
      1057, 1055, 1073, 46, 58, 32,
      1055, 1088, 1086, 1089, 1074, 1077, 1097, 1077, 1085, 1080, 1077, 44, 32,
      50, 48, 50, 48, 46, 32, 8211, 32, 57, 57, 57, 32, 1089, 46]"

text \<open>A validated book without edition whose title is the abbreviation \<open>izd\<close> with its full stop.\<close>

definition book_titled_izd :: BookModel where
  "book_titled_izd =
     \<lparr>BookModel.authors = ascii ''A'',
      title = izd @ ascii ''.'',
      edition = None,
      city = ascii ''M'',
      publishing_house = ascii ''P'',
      year = 2020,
      pages = 10\<rparr>"

section \<open>What each formatter produces\<close>

text \<open>
  Each template is scanned on its concrete text; the field values stay symbolic, since
  substituted text is never scanned.
\<close>

lemmas scan_eval = Template_substitute_def ascii_def emit_def is_id_start_def is_id_char_def

lemma GOSTBook_text:
  "fst (GOSTBook_substitute d lg) =
     Inr (BookModel.authors d @ ascii '' '' @ BookModel.title d @ ascii ''. '' @ [8211] @ ascii '' ''
          @ GOSTBook_get_edition d @ BookModel.city d @ ascii '': '' @ BookModel.publishing_house d
          @ ascii '', '' @ str_int (BookModel.year d) @ ascii ''. '' @ [8211] @ ascii '' ''
          @ str_int (BookModel.pages d) @ ascii '' '' @ [1089] @ ascii ''.'')"
  by (simp add: GOSTBook_substitute_def GOSTBook_template_def scan_eval Let_def)

lemma GOSTInternetResource_text:
  "fst (GOSTInternetResource_substitute d lg) =
     Inr (article d @ ascii '' // '' @ website d @ ascii '' URL: '' @ link d @ ascii '' (''
          @ data_obrashcheniya @ ascii '': '' @ access_date d @ ascii '').'')"
  by (simp add: GOSTInternetResource_substitute_def GOSTInternetResource_template_def
      data_obrashcheniya_def scan_eval Let_def)

lemma GOSTCollectionArticle_text:
  "fst (GOSTCollectionArticle_substitute d lg) =
     Inr (ArticlesCollectionModel.authors d @ ascii '' '' @ ArticlesCollectionModel.article_title d
          @ ascii '' // '' @ collection_title d @ ascii ''. '' @ [8211] @ ascii '' ''
          @ ArticlesCollectionModel.city d @ ascii '': '' @ ArticlesCollectionModel.publishing_house d
          @ ascii '', '' @ str_int (ArticlesCollectionModel.year d) @ ascii ''. '' @ [8211]
          @ ascii '' '' @ [1057] @ ascii ''. '' @ ArticlesCollectionModel.pages d @ ascii ''.'')"
  by (simp add: GOSTCollectionArticle_substitute_def GOSTCollectionArticle_template_def
      scan_eval Let_def)

lemma str_split_takeWhile:
  "\<exists>ws. str_split sep s = takeWhile (\<lambda>c. c \<noteq> sep) s # ws"
  by (induction s) auto

lemma getitem0_str_split:
  "getitem0 (str_split sep s) = Inr (takeWhile (\<lambda>c. c \<noteq> sep) s)"
  using str_split_takeWhile [of sep s] by (auto simp: getitem0_def)

lemma takeWhile_absent: "sep \<notin> set s \<Longrightarrow> takeWhile (\<lambda>c. c \<noteq> sep) s = s"
  by (induction s) auto

lemma GOSTJournalArticle_author:
  "GOSTJournalArticle_get_author d = Inr (takeWhile (\<lambda>c. c \<noteq> 44) (JournalArticleModel.authors d))"
  by (simp add: GOSTJournalArticle_get_author_def getitem0_str_split takeWhile_absent)

lemma GOSTJournalArticle_text:
  "fst (GOSTJournalArticle_substitute d lg) =
     Inr (takeWhile (\<lambda>c. c \<noteq> 44) (JournalArticleModel.authors d) @ ascii '' ''
          @ JournalArticleModel.article_title d @ ascii '' / '' @ JournalArticleModel.authors d
          @ ascii '' // '' @ journal_title d @ ascii ''. '' @ [8211] @ ascii '' ''
          @ str_int (JournalArticleModel.year d) @ ascii ''. '' @ [8211] @ ascii '' '' @ [8470]
          @ ascii '' '' @ str_int (release d) @ ascii ''. '' @ [8211] @ ascii '' '' @ [1057]
          @ ascii ''. '' @ JournalArticleModel.pages d @ ascii ''.'')"
  by (simp add: GOSTJournalArticle_substitute_def GOSTJournalArticle_author
      GOSTJournalArticle_template_def scan_eval Let_def)

lemma GOSTDissertation_text:
  "fst (GOSTDissertation_substitute d lg) =
     Inr (author d @ ascii '' '' @ DissertationModel.title d @ ascii '': '' @ degree d @ ascii '' ''
          @ speciality d @ ascii '' '' @ nauk @ ascii '': '' @ code d @ ascii '' / '' @ author d
          @ ascii '' '' @ [8211] @ ascii '' '' @ DissertationModel.city d @ ascii '', ''
          @ str_int (DissertationModel.year d) @ ascii ''. '' @ [8211] @ ascii '' ''
          @ str_int (DissertationModel.pages d) @ ascii '' '' @ [1089] @ ascii ''.'')"
  by (simp add: GOSTDissertation_substitute_def GOSTDissertation_template_def nauk_def
      scan_eval Let_def)


section \<open>Constructing formatters\<close>

text \<open>What the registry pairs a class with.\<close>

lemma registry_dispatch:
  assumes "formatters_map (type_name m) = Some cls"
  shows "(\<exists>d. m = Book d \<and> cls = GOSTBook)
       \<or> (\<exists>d. m = InternetResource d \<and> cls = GOSTInternetResource)
       \<or> (\<exists>d. m = ArticlesCollection d \<and> cls = GOSTCollectionArticle)
       \<or> (\<exists>d. m = JournalArticle d \<and> cls = GOSTJournalArticle)
       \<or> (\<exists>d. m = Dissertation d \<and> cls = GOSTDissertation)
       \<or> (\<exists>n. m = Other n)"
  using assms by (cases m) (simp_all add: formatters_map_def)

lemma substitute_log_free: "fst (substitute cls m lg) = fst (substitute cls m lg')"
  by (cases "(cls, m, lg)" rule: substitute.cases)
     (simp_all add: GOSTBook_text GOSTInternetResource_text GOSTCollectionArticle_text
        GOSTJournalArticle_text GOSTDissertation_text)

lemma make_formatter_log_free: "fst (make_formatter m lg) = fst (make_formatter m lg')"
proof (cases "formatters_map (type_name m)")
  case None
  then show ?thesis by (simp add: make_formatter_def)
next
  case (Some cls)
  obtain r l where a: "substitute cls m lg = (r, l)" by (cases "substitute cls m lg")
  obtain r' l' where b: "substitute cls m lg' = (r', l')" by (cases "substitute cls m lg'")
  have "r = r'" using substitute_log_free [of cls m lg lg'] a b by simp
  with Some a b show ?thesis
    by (simp add: make_formatter_def BaseCitationStyle_init_def split: sum.splits)
qed

lemma make_formatter_supported:
  assumes "supported m"
  shows "\<exists>s. fst (make_formatter m lg) = Inr \<lparr>data = m, formatted = s\<rparr>"
  using assms
  by (cases m)
     (auto simp: make_formatter_def formatters_map_def BaseCitationStyle_init_def
        split: prod.splits sum.splits
        dest: arg_cong [where f = fst]
        simp: GOSTBook_text GOSTInternetResource_text GOSTCollectionArticle_text
        GOSTJournalArticle_text GOSTDissertation_text)

section \<open>The loop of the constructor\<close>

lemma init_loop_supported:
  assumes "\<forall>m\<in>set models. supported m"
  shows "fst (init_loop models acc lg) =
           Inr (acc @ map (\<lambda>m. projr (fst (make_formatter m lg0))) models)"
  using assms
proof (induction models arbitrary: acc lg)
  case Nil
  then show ?case by simp
next
  case (Cons m models)
  obtain r l where a: "make_formatter m lg = (r, l)" by (cases "make_formatter m lg")
  from Cons.prems have "supported m" by simp
  then obtain s where "fst (make_formatter m lg) = Inr \<lparr>data = m, formatted = s\<rparr>"
    using make_formatter_supported by blast
  with a have r: "r = Inr \<lparr>data = m, formatted = s\<rparr>" by simp
  have "fst (make_formatter m lg0) = fst (make_formatter m lg)"
    by (rule make_formatter_log_free)
  with a r have p: "projr (fst (make_formatter m lg0)) = \<lparr>data = m, formatted = s\<rparr>" by simp
  from Cons.prems have "\<forall>m\<in>set models. supported m" by simp
  from Cons.IH [OF this] a r p show ?case by simp
qed

lemma items_of_supported:
  assumes "\<forall>m\<in>set models. supported m"
  shows "map (\<lambda>m. fst (make_formatter m lg)) models =
           map Inr (map (\<lambda>m. projr (fst (make_formatter m lg0))) models)"
proof -
  have "fst (make_formatter m lg) = Inr (projr (fst (make_formatter m lg0)))"
    if "m \<in> set models" for m
  proof -
    from that assms have "supported m" by simp
    then obtain s where "fst (make_formatter m lg0) = Inr \<lparr>data = m, formatted = s\<rparr>"
      using make_formatter_supported by blast
    then show ?thesis using make_formatter_log_free [of m lg lg0] by simp
  qed
  then show ?thesis by simp
qed

lemma format_models_supported:
  assumes "\<forall>m\<in>set models. supported m"
  shows "fst (format_models models lg) =
           Inr (sort_key formatted (map (\<lambda>m. projr (fst (make_formatter m lg0))) models))"
proof -
  obtain r l where a: "init_loop models [] lg = (r, l)" by (cases "init_loop models [] lg")
  with init_loop_supported [OF assms, of "[]" lg lg0]
  have "r = Inr (map (\<lambda>m. projr (fst (make_formatter m lg0))) models)" by simp
  with a show ?thesis
    by (simp add: format_models_def GOSTCitationFormatter_init_def GOSTCitationFormatter_format_def)
qed

lemma make_formatter_unregistered:
  "formatters_map (type_name m) = None \<Longrightarrow> make_formatter m lg = (Inl TypeError, lg)"
  by (simp add: make_formatter_def)

lemma init_loop_unregistered:
  assumes "\<exists>m\<in>set models. formatters_map (type_name m) = None"
  shows "isl (fst (init_loop models acc lg))"
  using assms
proof (induction models arbitrary: acc lg)
  case Nil
  then show ?case by simp
next
  case (Cons m models)
  obtain r l where a: "make_formatter m lg = (r, l)" by (cases "make_formatter m lg")
  show ?case
  proof (cases r)
    case (Inl e)
    with a show ?thesis by simp
  next
    case (Inr item)
    with a have "formatters_map (type_name m) \<noteq> None"
      using make_formatter_unregistered [of m lg] by auto
    with Cons.prems have "\<exists>m\<in>set models. formatters_map (type_name m) = None" by auto
    from Cons.IH [OF this] a Inr show ?thesis by simp
  qed
qed

lemma init_loop_TypeError:
  assumes "\<exists>m\<in>set models. formatters_map (type_name m) = None"
    and "\<forall>m\<in>set models. supported m \<or> formatters_map (type_name m) = None"
  shows "fst (init_loop models acc lg) = Inl TypeError"
  using assms
proof (induction models arbitrary: acc lg)
  case Nil
  then show ?case by simp
next
  case (Cons m models)
  show ?case
  proof (cases "formatters_map (type_name m)")
    case None
    then show ?thesis by (simp add: make_formatter_unregistered)
  next
    case (Some cls)
    with Cons.prems have sup: "supported m" by auto
    obtain r l where a: "make_formatter m lg = (r, l)" by (cases "make_formatter m lg")
    from sup obtain s where "fst (make_formatter m lg) = Inr \<lparr>data = m, formatted = s\<rparr>"
      using make_formatter_supported by blast
    with a have r: "r = Inr \<lparr>data = m, formatted = s\<rparr>" by simp
    from Some Cons.prems have 1: "\<exists>m\<in>set models. formatters_map (type_name m) = None" by auto
    from Cons.prems have 2: "\<forall>m\<in>set models. supported m \<or> formatters_map (type_name m) = None"
      by auto
    from Cons.IH [OF 1 2] a r show ?thesis by simp
  qed
qed

lemma format_models_error:
  "fst (format_models models lg) = Inl e \<longleftrightarrow> fst (init_loop models [] lg) = Inl e"
  by (simp add: format_models_def GOSTCitationFormatter_init_def split: prod.splits sum.splits)

lemma format_models_isl:
  "isl (fst (format_models models lg)) \<longleftrightarrow> isl (fst (init_loop models [] lg))"
  by (simp add: format_models_def GOSTCitationFormatter_init_def split: prod.splits sum.splits)

lemma supported_registered: "supported m \<Longrightarrow> formatters_map (type_name m) \<noteq> None"
  by (cases m) (simp_all add: formatters_map_def)

section \<open>The sorted citation list\<close>

text \<open>
  Claim C1. For every list of records of the five kinds, all of which are registered,
  the batch succeeds; the returned formatters are in ascending lexicographic order of
  their formatted strings, and the sort is stable: for every string \<open>k\<close>, the formatters
  whose formatted string is \<open>k\<close> appear in the output in the order in which the
  constructor built them from the input. It holds for validated records since it holds
  for all records of the five kinds.
\<close>

theorem format_sorted_stable:
  assumes "\<forall>m\<in>set models. supported m"
  shows "\<exists>cs items.
           map (\<lambda>m. fst (make_formatter m lg')) models = map Inr cs
         \<and> fst (format_models models lg) = Inr items
         \<and> sorted (map formatted items)
         \<and> (\<forall>k. filter (\<lambda>c. formatted c = k) items = filter (\<lambda>c. formatted c = k) cs)"
proof -
  let ?cs = "map (\<lambda>m. projr (fst (make_formatter m lg'))) models"
  have 1: "map (\<lambda>m. fst (make_formatter m lg')) models = map Inr ?cs"
    by (rule items_of_supported [OF assms])
  have 2: "fst (format_models models lg) = Inr (sort_key formatted ?cs)"
    by (rule format_models_supported [OF assms])
  have 3: "sorted (map formatted (sort_key formatted ?cs))"
    by (rule sorted_sort_key)
  have 4: "\<forall>k. filter (\<lambda>c. formatted c = k) (sort_key formatted ?cs)
             = filter (\<lambda>c. formatted c = k) ?cs"
    by (simp add: sort_key_stable)
  from 1 2 3 4 show ?thesis by blast
qed

text \<open>
  A list in which the first and the third record yield the same string (an empty and an
  absent edition) and are told apart only by their order.
\<close>

theorem format_sorted_stable_witness:
  "supported (Book (example_book\<lparr>edition := Some []\<rparr>))
   \<and> supported (InternetResource example_internet_resource)
   \<and> supported (Book (example_book\<lparr>edition := None\<rparr>))
   \<and> (\<exists>cs items.
         map (\<lambda>m. fst (make_formatter m []))
           [Book (example_book\<lparr>edition := Some []\<rparr>),
            InternetResource example_internet_resource,
            Book (example_book\<lparr>edition := None\<rparr>)] = map Inr cs
       \<and> fst (format_models
                [Book (example_book\<lparr>edition := Some []\<rparr>),
                 InternetResource example_internet_resource,
                 Book (example_book\<lparr>edition := None\<rparr>)] []) = Inr items
       \<and> sorted (map formatted items)
       \<and> (\<forall>k. filter (\<lambda>c. formatted c = k) items = filter (\<lambda>c. formatted c = k) cs))"
proof -
  have h: "\<forall>m\<in>set [Book (example_book\<lparr>edition := Some []\<rparr>),
                      InternetResource example_internet_resource,
                      Book (example_book\<lparr>edition := None\<rparr>)]. supported m"
    by simp
  from format_sorted_stable [OF h, of "[]" "[]"] show ?thesis by simp
qed

text \<open>
  Claim C2. For every input list with at least one record whose class name is not a key
  of \<open>formatters_map\<close>, the batch fails: the result is an error and no list of
  citations, whatever the other records are. The error is the TypeError of calling the
  \<^verbatim>\<open>None\<close> that \<^verbatim>\<open>dict.get\<close> returned, which is the failure the spec names
  UnsupportedRecordKind, whenever every other record is of one of the five kinds.
\<close>

theorem unregistered_kind_fails:
  assumes "\<exists>m\<in>set models. formatters_map (type_name m) = None"
  shows "isl (fst (format_models models lg))
       \<and> ((\<forall>m\<in>set models. supported m \<or> formatters_map (type_name m) = None)
            \<longrightarrow> fst (format_models models lg) = Inl TypeError)"
  using assms init_loop_unregistered [of models "[]" lg] init_loop_TypeError [of models "[]" lg]
  by (simp add: format_models_isl format_models_error)

theorem unregistered_kind_fails_witness:
  "formatters_map (type_name (Other ''ThesisModel'')) = None
   \<and> supported (Book example_book)
   \<and> supported (InternetResource example_internet_resource)
   \<and> fst (format_models
            [Book example_book, Other ''ThesisModel'', InternetResource example_internet_resource] [])
       = Inl TypeError"
proof -
  have u: "formatters_map (type_name (Other ''ThesisModel'')) = None"
    by (simp add: formatters_map_def)
  have h: "\<exists>m\<in>set [Book example_book, Other ''ThesisModel'',
                      InternetResource example_internet_resource].
             formatters_map (type_name m) = None"
    using u by simp
  have g: "\<forall>m\<in>set [Book example_book, Other ''ThesisModel'',
                      InternetResource example_internet_resource].
             supported m \<or> formatters_map (type_name m) = None"
    using u by simp
  from unregistered_kind_fails [OF h, of "[]"] g u show ?thesis by simp
qed

text \<open>
  Claim C7. For every list of records of the five kinds and every permutation of it,
  both batches succeed and give the same list of formatted strings.
\<close>

theorem format_permutation:
  assumes "\<forall>m\<in>set models. supported m" and "mset models' = mset models"
  shows "\<exists>items items'.
           fst (format_models models lg) = Inr items
         \<and> fst (format_models models' lg') = Inr items'
         \<and> map formatted items' = map formatted items"
proof -
  let ?f = "\<lambda>m. projr (fst (make_formatter m []))"
  from assms have sup': "\<forall>m\<in>set models'. supported m"
    by (metis mset_eq_setD)
  have 1: "fst (format_models models lg) = Inr (sort_key formatted (map ?f models))"
    by (rule format_models_supported [OF assms(1)])
  have 2: "fst (format_models models' lg') = Inr (sort_key formatted (map ?f models'))"
    by (rule format_models_supported [OF sup'])
  have a: "sort (map formatted (map ?f models)) = map formatted (sort_key formatted (map ?f models'))"
  proof (rule properties_for_sort)
    show "mset (map formatted (sort_key formatted (map ?f models')))
            = mset (map formatted (map ?f models))"
      using assms(2) by (simp add: multiset.map_comp)
    show "sorted (map formatted (sort_key formatted (map ?f models')))"
      by (rule sorted_sort_key)
  qed
  have b: "sort (map formatted (map ?f models)) = map formatted (sort_key formatted (map ?f models))"
  proof (rule properties_for_sort)
    show "mset (map formatted (sort_key formatted (map ?f models)))
            = mset (map formatted (map ?f models))"
      by (simp add: multiset.map_comp)
    show "sorted (map formatted (sort_key formatted (map ?f models)))"
      by (rule sorted_sort_key)
  qed
  from 1 2 a b show ?thesis by simp
qed


theorem format_permutation_witness:
  "supported (Book example_book)
   \<and> supported (InternetResource example_internet_resource)
   \<and> mset [InternetResource example_internet_resource, Book example_book]
       = mset [Book example_book, InternetResource example_internet_resource]
   \<and> (\<exists>items items'.
         fst (format_models [Book example_book, InternetResource example_internet_resource] [])
           = Inr items
       \<and> fst (format_models [InternetResource example_internet_resource, Book example_book] [])
           = Inr items'
       \<and> map formatted items' = map formatted items)"
proof -
  have h: "\<forall>m\<in>set [Book example_book, InternetResource example_internet_resource]. supported m"
    by simp
  have p: "mset [InternetResource example_internet_resource, Book example_book]
             = mset [Book example_book, InternetResource example_internet_resource]"
    by (simp add: add.commute)
  from format_permutation [OF h p, of "[]" "[]"] p show ?thesis by simp
qed

text \<open>
  Claim C10. For every list of records of the five kinds the batch succeeds, the output
  has the length of the input, and the multiset of its formatted strings is the
  multiset of the strings obtained by constructing a formatter for each input record on
  its own, with any log.
\<close>

theorem format_keeps_every_citation:
  assumes "\<forall>m\<in>set models. supported m"
  shows "\<exists>items.
           fst (format_models models lg) = Inr items
         \<and> length items = length models
         \<and> mset (map (\<lambda>c. Inr (formatted c)) items)
             = mset (map (\<lambda>m. map_sum id formatted (fst (make_formatter m lg'))) models)"
proof -
  let ?cs = "map (\<lambda>m. projr (fst (make_formatter m lg'))) models"
  have 1: "map (\<lambda>m. fst (make_formatter m lg')) models = map Inr ?cs"
    by (rule items_of_supported [OF assms])
  have 2: "fst (format_models models lg) = Inr (sort_key formatted ?cs)"
    by (rule format_models_supported [OF assms])
  have "map (\<lambda>m. map_sum id formatted (fst (make_formatter m lg'))) models
          = map (map_sum id formatted) (map (\<lambda>m. fst (make_formatter m lg')) models)"
    by simp
  also have "\<dots> = map (\<lambda>c. Inr (formatted c)) ?cs"
    unfolding 1 by simp
  finally have e: "map (\<lambda>m. map_sum id formatted (fst (make_formatter m lg'))) models
                     = map (\<lambda>c. Inr (formatted c)) ?cs" .
  have 3: "mset (map (\<lambda>c. Inr (formatted c)) (sort_key formatted ?cs))
             = mset (map (\<lambda>c. Inr (formatted c)) ?cs)"
    by (simp del: map_map)
  show ?thesis
  proof (intro exI conjI)
    show "fst (format_models models lg) = Inr (sort_key formatted ?cs)"
      by (rule 2)
    show "length (sort_key formatted ?cs) = length models"
      by simp
    show "mset (map (\<lambda>c. Inr (formatted c)) (sort_key formatted ?cs))
            = mset (map (\<lambda>m. map_sum id formatted (fst (make_formatter m lg'))) models)"
      unfolding e by (rule 3)
  qed
qed

theorem format_keeps_every_citation_witness:
  "supported (Book example_book)
   \<and> supported (JournalArticle example_journal_article)
   \<and> (\<exists>items.
         fst (format_models
                [Book example_book, Book example_book, JournalArticle example_journal_article] [])
           = Inr items
       \<and> length items
           = length [Book example_book, Book example_book, JournalArticle example_journal_article]
       \<and> mset (map (\<lambda>c. Inr (formatted c)) items)
           = mset (map (\<lambda>m. map_sum id formatted (fst (make_formatter m [])))
                    [Book example_book, Book example_book, JournalArticle example_journal_article]))"
proof -
  have h: "\<forall>m\<in>set [Book example_book, Book example_book, JournalArticle example_journal_article].
             supported m"
    by simp
  from format_keeps_every_citation [OF h, of "[]" "[]"] show ?thesis by simp
qed

section \<open>Substrings across separators\<close>

text \<open>
  An occurrence of a pattern cannot extend across a code point that the pattern does
  not contain, and decimal numerals contain digits and the minus sign only.
\<close>

lemma sublist_sep:
  assumes "c \<notin> set p"
  shows "sublist p (xs @ c # ys) \<longleftrightarrow> sublist p xs \<or> sublist p ys"
proof
  assume "sublist p (xs @ c # ys)"
  then consider "sublist p xs" | "sublist p (c # ys)"
    | p1 p2 where "p = p1 @ p2" "suffix p1 xs" "prefix p2 (c # ys)"
    unfolding sublist_append by blast
  then show "sublist p xs \<or> sublist p ys"
  proof cases
    case 1
    then show ?thesis by simp
  next
    case 2
    then have "prefix p (c # ys) \<or> sublist p ys" by (simp add: sublist_Cons_right)
    moreover have "p = []" if "prefix p (c # ys)"
      using that assms by (cases p) auto
    ultimately show ?thesis by auto
  next
    case 3
    have "p2 = []" using 3(1,3) assms by (cases p2) auto
    with 3 have "suffix p xs" by simp
    then show ?thesis by (auto simp: suffix_def)
  qed
next
  assume "sublist p xs \<or> sublist p ys"
  then show "sublist p (xs @ c # ys)"
    by (auto simp: sublist_append sublist_Cons_right)
qed

lemma sublist_snoc:
  assumes "q \<noteq> []"
  shows "sublist (q @ [c]) (xs @ [c]) \<longleftrightarrow> sublist (q @ [c]) xs \<or> suffix q xs"
proof
  assume "sublist (q @ [c]) (xs @ [c])"
  then consider "sublist (q @ [c]) xs" | "sublist (q @ [c]) [c]"
    | p1 p2 where "q @ [c] = p1 @ p2" "suffix p1 xs" "prefix p2 [c]"
    unfolding sublist_append by blast
  then show "sublist (q @ [c]) xs \<or> suffix q xs"
  proof cases
    case 1
    then show ?thesis by simp
  next
    case 2
    then have "length (q @ [c]) \<le> length [c]" by (rule sublist_length_le)
    with assms show ?thesis by simp
  next
    case 3
    from 3(3) have "p2 = [] \<or> p2 = [c]" by (cases p2) auto
    then show ?thesis
    proof
      assume "p2 = []"
      with 3 have "suffix (q @ [c]) xs" by simp
      then show ?thesis by (auto simp: suffix_def)
    next
      assume "p2 = [c]"
      with 3 have "suffix q xs" by simp
      then show ?thesis by simp
    qed
  qed
next
  assume "sublist (q @ [c]) xs \<or> suffix q xs"
  then show "sublist (q @ [c]) (xs @ [c])"
  proof
    assume "sublist (q @ [c]) xs"
    then show ?thesis by (simp add: sublist_append)
  next
    assume "suffix q xs"
    then obtain r where "xs = r @ q" by (auto simp: suffix_def)
    then have "xs @ [c] = r @ (q @ [c])" by simp
    then show ?thesis by (metis sublist_append_leftI)
  qed
qed

lemma digits_range: "set (digits n) \<subseteq> {48..57}"
proof (induction n rule: digits.induct)
  case (1 n)
  show ?case
  proof (cases "n < 10")
    case True
    then show ?thesis by (subst digits.simps) auto
  next
    case False
    have "n mod 10 < 10" by simp
    then have "48 + n mod 10 \<in> {48..57}" by auto
    with False 1 show ?thesis by (subst digits.simps) auto
  qed
qed

lemma str_int_range: "set (str_int i) \<subseteq> insert 45 {48..57}"
  using digits_range [of "nat (- i)"] digits_range [of "nat i"]
  by (auto simp: str_int_def)

lemma izd_not_in_number:
  "\<not> sublist (izd @ ascii ''.'') (str_int i)" "\<not> suffix izd (str_int i)"
proof -
  have n: "1076 \<notin> set (str_int i)" using str_int_range [of i] by auto
  show "\<not> sublist (izd @ ascii ''.'') (str_int i)"
  proof
    assume "sublist (izd @ ascii ''.'') (str_int i)"
    then have "set (izd @ ascii ''.'') \<subseteq> set (str_int i)" by (rule set_mono_sublist)
    with n show False by (auto simp: izd_def)
  qed
  show "\<not> suffix izd (str_int i)"
  proof
    assume "suffix izd (str_int i)"
    then have "set izd \<subseteq> set (str_int i)" by (rule set_mono_suffix)
    with n show False by (auto simp: izd_def)
  qed
qed


lemma book_plain_izd:
  fixes A T C H :: pystr
  shows "sublist (izd @ [46])
           (A @ 32 # (T @ [46]) @ 32 # [8211] @ 32 # (C @ [58]) @ 32 # (H @ [44]) @ 32
            # (str_int y @ [46]) @ 32 # [8211] @ 32 # str_int n @ 32 # [1089, 46])
         \<longleftrightarrow> sublist (izd @ [46]) A \<or> sublist (izd @ [46]) T \<or> suffix izd T
             \<or> sublist (izd @ [46]) C \<or> sublist (izd @ [46]) H"
proof -
  let ?p = "izd @ [46]"
  have sp: "32 \<notin> set ?p" by (simp add: izd_def)
  have t: "sublist ?p (T @ [46]) \<longleftrightarrow> sublist ?p T \<or> suffix izd T"
    by (rule sublist_snoc) (simp add: izd_def)
  have dash: "\<not> sublist ?p [8211]"
    by (simp add: izd_def sublist_Cons_right)
  have c: "sublist ?p (C @ [58]) \<longleftrightarrow> sublist ?p C"
    using sublist_sep [of 58 ?p C "[]"] by (simp add: izd_def)
  have h: "sublist ?p (H @ [44]) \<longleftrightarrow> sublist ?p H"
    using sublist_sep [of 44 ?p H "[]"] by (simp add: izd_def)
  have "sublist ?p (str_int y @ [46]) \<longleftrightarrow> sublist ?p (str_int y) \<or> suffix izd (str_int y)"
    by (rule sublist_snoc) (simp add: izd_def)
  then have y: "\<not> sublist ?p (str_int y @ [46])"
    using izd_not_in_number [of y] by (simp add: ascii_def)
  have n: "\<not> sublist ?p (str_int n)"
    using izd_not_in_number [of n] by (simp add: ascii_def)
  have e: "\<not> sublist ?p [1089, 46]"
    by (simp add: izd_def sublist_Cons_right)
  have "sublist ?p
           (A @ 32 # (T @ [46]) @ 32 # [8211] @ 32 # (C @ [58]) @ 32 # (H @ [44]) @ 32
            # (str_int y @ [46]) @ 32 # [8211] @ 32 # str_int n @ 32 # [1089, 46])
         \<longleftrightarrow> sublist ?p A \<or> sublist ?p (T @ [46]) \<or> sublist ?p [8211]
             \<or> sublist ?p (C @ [58]) \<or> sublist ?p (H @ [44]) \<or> sublist ?p (str_int y @ [46])
             \<or> sublist ?p [8211] \<or> sublist ?p (str_int n) \<or> sublist ?p [1089, 46]"
    by (simp only: sublist_sep [OF sp])
  with t dash c h y n e show ?thesis by blast
qed

lemma split_at_first:
  "sep \<in> set s \<Longrightarrow> \<exists>rest. s = takeWhile (\<lambda>c. c \<noteq> sep) s @ sep # rest"
  by (induction s) auto

lemma takeWhile_first_sep:
  "sep \<notin> set a \<Longrightarrow> takeWhile (\<lambda>c. c \<noteq> sep) (a @ sep # rest) = a"
  by (induction a) auto

lemma takeWhile_free: "sep \<notin> set (takeWhile (\<lambda>c. c \<noteq> sep) s)"
  by (induction s) auto

section \<open>The journal article's first author\<close>

text \<open>
  Claim C3. For every JournalArticle record: when \<open>authors\<close> contains a comma (code point
  44), \<open>get_author\<close> returns the part \<open>a\<close> of \<open>authors\<close> strictly before the first comma,
  that is \<open>authors = a @ 44 # rest\<close> with no comma in \<open>a\<close>; when it contains none,
  \<open>get_author\<close> returns \<open>authors\<close> itself. In both cases the formatted string begins with
  that value.
\<close>

theorem journal_first_author:
  "(44 \<in> set (JournalArticleModel.authors d) \<longrightarrow>
      (\<exists>a rest. JournalArticleModel.authors d = a @ 44 # rest \<and> 44 \<notin> set a
         \<and> GOSTJournalArticle_get_author d = Inr a
         \<and> (\<exists>tl. fst (GOSTJournalArticle_substitute d lg) = Inr (a @ tl))))
   \<and> (44 \<notin> set (JournalArticleModel.authors d) \<longrightarrow>
         GOSTJournalArticle_get_author d = Inr (JournalArticleModel.authors d)
         \<and> (\<exists>tl. fst (GOSTJournalArticle_substitute d lg)
                    = Inr (JournalArticleModel.authors d @ tl)))"
proof (intro conjI impI)
  assume c: "44 \<in> set (JournalArticleModel.authors d)"
  let ?a = "takeWhile (\<lambda>c. c \<noteq> 44) (JournalArticleModel.authors d)"
  from split_at_first [OF c] obtain rest where
    "JournalArticleModel.authors d = ?a @ 44 # rest" by blast
  moreover have "44 \<notin> set ?a" by (rule takeWhile_free)
  moreover have "GOSTJournalArticle_get_author d = Inr ?a" by (rule GOSTJournalArticle_author)
  moreover have "\<exists>tl. fst (GOSTJournalArticle_substitute d lg) = Inr (?a @ tl)"
    unfolding GOSTJournalArticle_text by blast
  ultimately show "\<exists>a rest. JournalArticleModel.authors d = a @ 44 # rest \<and> 44 \<notin> set a
         \<and> GOSTJournalArticle_get_author d = Inr a
         \<and> (\<exists>tl. fst (GOSTJournalArticle_substitute d lg) = Inr (a @ tl))"
    by blast
next
  assume n: "44 \<notin> set (JournalArticleModel.authors d)"
  then show "GOSTJournalArticle_get_author d = Inr (JournalArticleModel.authors d)"
    by (simp add: GOSTJournalArticle_get_author_def)
  from n have "takeWhile (\<lambda>c. c \<noteq> 44) (JournalArticleModel.authors d)
                 = JournalArticleModel.authors d"
    by (rule takeWhile_absent)
  then show "\<exists>tl. fst (GOSTJournalArticle_substitute d lg)
                    = Inr (JournalArticleModel.authors d @ tl)"
    unfolding GOSTJournalArticle_text by (simp only:) blast
qed

text \<open>
  The example of the spec, whose first author is \<open>ivanov\<close>, and the same record with that
  single author.
\<close>

theorem journal_first_author_witness:
  "44 \<in> set (JournalArticleModel.authors example_journal_article)
   \<and> GOSTJournalArticle_get_author example_journal_article = Inr ivanov
   \<and> 44 \<notin> set (JournalArticleModel.authors
                    (example_journal_article\<lparr>JournalArticleModel.authors := ivanov\<rparr>))
   \<and> GOSTJournalArticle_get_author
         (example_journal_article\<lparr>JournalArticleModel.authors := ivanov\<rparr>) = Inr ivanov"
proof -
  have c: "44 \<in> set (JournalArticleModel.authors example_journal_article)"
    by (simp add: example_journal_article_def ivanov_petrov_def)
  have n: "44 \<notin> set (JournalArticleModel.authors
                    (example_journal_article\<lparr>JournalArticleModel.authors := ivanov\<rparr>))"
    by (simp add: ivanov_def)
  from journal_first_author [of example_journal_article "[]"] c
  obtain a rest where
    s: "JournalArticleModel.authors example_journal_article = a @ 44 # rest"
    and f: "44 \<notin> set a"
    and g: "GOSTJournalArticle_get_author example_journal_article = Inr a"
    by blast
  from f have "takeWhile (\<lambda>c. c \<noteq> 44) (a @ 44 # rest) = a"
    by (rule takeWhile_first_sep)
  with s have "takeWhile (\<lambda>c. c \<noteq> 44) (JournalArticleModel.authors example_journal_article) = a"
    by simp
  moreover have "takeWhile (\<lambda>c. c \<noteq> 44) (JournalArticleModel.authors example_journal_article)
                   = ivanov"
    by (simp add: example_journal_article_def ivanov_petrov_def ivanov_def)
  ultimately have "a = ivanov" by simp
  with g have 1: "GOSTJournalArticle_get_author example_journal_article = Inr ivanov" by simp
  from journal_first_author
         [of "example_journal_article\<lparr>JournalArticleModel.authors := ivanov\<rparr>" "[]"] n
  have 2: "GOSTJournalArticle_get_author
         (example_journal_article\<lparr>JournalArticleModel.authors := ivanov\<rparr>) = Inr ivanov"
    by simp
  from c 1 n 2 show ?thesis by blast
qed

section \<open>The book's edition clause\<close>

text \<open>
  Claim C4, amended. For every Book record whose edition is unset, the edition clause
  expands to the empty string: the output is exactly authors, a space, title, a full
  stop, the dash between spaces, city, a colon and so on, so that between the title and
  the city there is exactly the full stop, a space, the dash and a space. The output
  contains the abbreviation \<open>izd\<close> followed by a full stop if and only if authors, title,
  city or publishing house contains it or the title ends with \<open>izd\<close>: the fields are
  substituted verbatim, so the claim's unconditional "contains no such substring" fails
  on a record whose own text supplies it.
\<close>

theorem book_without_edition:
  assumes "edition d = None"
  shows "\<exists>s. fst (GOSTBook_substitute d lg) = Inr s
           \<and> s = BookModel.authors d @ ascii '' '' @ BookModel.title d @ ascii ''. '' @ [8211]
                 @ ascii '' '' @ BookModel.city d @ ascii '': '' @ BookModel.publishing_house d
                 @ ascii '', '' @ str_int (BookModel.year d) @ ascii ''. '' @ [8211] @ ascii '' ''
                 @ str_int (BookModel.pages d) @ ascii '' '' @ [1089] @ ascii ''.''
           \<and> (sublist (izd @ ascii ''.'') s \<longleftrightarrow>
                sublist (izd @ ascii ''.'') (BookModel.authors d)
                \<or> sublist (izd @ ascii ''.'') (BookModel.title d)
                \<or> suffix izd (BookModel.title d)
                \<or> sublist (izd @ ascii ''.'') (BookModel.city d)
                \<or> sublist (izd @ ascii ''.'') (BookModel.publishing_house d))"
proof -
  let ?s = "BookModel.authors d @ ascii '' '' @ BookModel.title d @ ascii ''. '' @ [8211]
                 @ ascii '' '' @ BookModel.city d @ ascii '': '' @ BookModel.publishing_house d
                 @ ascii '', '' @ str_int (BookModel.year d) @ ascii ''. '' @ [8211] @ ascii '' ''
                 @ str_int (BookModel.pages d) @ ascii '' '' @ [1089] @ ascii ''.''"
  from assms have g: "GOSTBook_get_edition d = []"
    by (simp add: GOSTBook_get_edition_def)
  have 1: "fst (GOSTBook_substitute d lg) = Inr ?s"
    unfolding GOSTBook_text g by simp
  have 2: "?s = BookModel.authors d @ 32 # (BookModel.title d @ [46]) @ 32 # [8211] @ 32
              # (BookModel.city d @ [58]) @ 32 # (BookModel.publishing_house d @ [44]) @ 32
              # (str_int (BookModel.year d) @ [46]) @ 32 # [8211] @ 32
              # str_int (BookModel.pages d) @ 32 # [1089, 46]"
    by (simp add: ascii_def)
  have 3: "ascii ''.'' = [46]" by (simp add: ascii_def)
  have "sublist (izd @ ascii ''.'') ?s \<longleftrightarrow>
                sublist (izd @ ascii ''.'') (BookModel.authors d)
                \<or> sublist (izd @ ascii ''.'') (BookModel.title d)
                \<or> suffix izd (BookModel.title d)
                \<or> sublist (izd @ ascii ''.'') (BookModel.city d)
                \<or> sublist (izd @ ascii ''.'') (BookModel.publishing_house d)"
    unfolding 2 unfolding 3 by (rule book_plain_izd)
  with 1 show ?thesis by blast
qed



text \<open>The example book with its edition removed: none of its fields holds the abbreviation.\<close>

theorem book_without_edition_witness:
  "edition (example_book\<lparr>edition := None\<rparr>) = None
   \<and> (\<exists>s. fst (GOSTBook_substitute (example_book\<lparr>edition := None\<rparr>) []) = Inr s
         \<and> \<not> sublist (izd @ ascii ''.'') s)"
proof -
  have e: "edition (example_book\<lparr>edition := None\<rparr>) = None" by simp
  have a: "\<not> sublist (izd @ ascii ''.'') (BookModel.authors (example_book\<lparr>edition := None\<rparr>))"
    by (simp add: example_book_def ivanov_petrov_def izd_def ascii_def sublist_Cons_right)
  have t: "\<not> sublist (izd @ ascii ''.'') (BookModel.title (example_book\<lparr>edition := None\<rparr>))"
    by (simp add: example_book_def nauka_kak_iskusstvo_def izd_def ascii_def sublist_Cons_right)
  have u: "\<not> suffix izd (BookModel.title (example_book\<lparr>edition := None\<rparr>))"
  proof
    assume "suffix izd (BookModel.title (example_book\<lparr>edition := None\<rparr>))"
    then have "set izd \<subseteq> set (BookModel.title (example_book\<lparr>edition := None\<rparr>))"
      by (rule set_mono_suffix)
    then show False
      by (simp add: example_book_def nauka_kak_iskusstvo_def izd_def)
  qed
  have c: "\<not> sublist (izd @ ascii ''.'') (BookModel.city (example_book\<lparr>edition := None\<rparr>))"
    by (simp add: example_book_def izd_def ascii_def sublist_Cons_right)
  have h: "\<not> sublist (izd @ ascii ''.'')
               (BookModel.publishing_house (example_book\<lparr>edition := None\<rparr>))"
    by (simp add: example_book_def izd_def ascii_def sublist_Cons_right)
  from book_without_edition [OF e, of "[]"]
  have "\<exists>s. fst (GOSTBook_substitute (example_book\<lparr>edition := None\<rparr>) []) = Inr s
           \<and> \<not> sublist (izd @ ascii ''.'') s"
  proof (elim exE conjE)
    fix s
    assume 1: "fst (GOSTBook_substitute (example_book\<lparr>edition := None\<rparr>) []) = Inr s"
      and 2: "sublist (izd @ ascii ''.'') s \<longleftrightarrow>
                sublist (izd @ ascii ''.'') (BookModel.authors (example_book\<lparr>edition := None\<rparr>))
                \<or> sublist (izd @ ascii ''.'') (BookModel.title (example_book\<lparr>edition := None\<rparr>))
                \<or> suffix izd (BookModel.title (example_book\<lparr>edition := None\<rparr>))
                \<or> sublist (izd @ ascii ''.'') (BookModel.city (example_book\<lparr>edition := None\<rparr>))
                \<or> sublist (izd @ ascii ''.'')
                     (BookModel.publishing_house (example_book\<lparr>edition := None\<rparr>))"
    from 2 a t u c h have "\<not> sublist (izd @ ascii ''.'') s" by (simp only: simp_thms)
    with 1 show ?thesis by (intro exI conjI)
  qed
  with e show ?thesis by (rule conjI)
qed

text \<open>
  The claim as stated fails on \<open>book_titled_izd\<close>, a validated book without edition whose
  title is the abbreviation itself: its citation contains the abbreviation.
\<close>

theorem book_titled_izd_counterexample:
  "validated (Book book_titled_izd)
   \<and> edition book_titled_izd = None
   \<and> fst (GOSTBook_substitute book_titled_izd [])
       = Inr [65, 32, 1080, 1079, 1076, 46, 46, 32, 8211, 32, 77, 58, 32, 80, 44, 32,
              50, 48, 50, 48, 46, 32, 8211, 32, 49, 48, 32, 1089, 46]
   \<and> sublist (izd @ ascii ''.'')
        [65, 32, 1080, 1079, 1076, 46, 46, 32, 8211, 32, 77, 58, 32, 80, 44, 32,
         50, 48, 50, 48, 46, 32, 8211, 32, 49, 48, 32, 1089, 46]"
proof -
  have y: "str_int 2020 = [50, 48, 50, 48]" by code_simp
  have p: "str_int 10 = [49, 48]" by code_simp
  have 1: "fst (GOSTBook_substitute book_titled_izd [])
       = Inr [65, 32, 1080, 1079, 1076, 46, 46, 32, 8211, 32, 77, 58, 32, 80, 44, 32,
              50, 48, 50, 48, 46, 32, 8211, 32, 49, 48, 32, 1089, 46]"
    unfolding GOSTBook_text
    by (simp add: book_titled_izd_def GOSTBook_get_edition_def izd_def ascii_def y p)
  have 2: "sublist (izd @ ascii ''.'')
        [65, 32, 1080, 1079, 1076, 46, 46, 32, 8211, 32, 77, 58, 32, 80, 44, 32,
         50, 48, 50, 48, 46, 32, 8211, 32, 49, 48, 32, 1089, 46]"
    by (simp add: izd_def ascii_def sublist_Cons_right)
  have 3: "validated (Book book_titled_izd)" by (simp add: book_titled_izd_def)
  have 4: "edition book_titled_izd = None" by (simp add: book_titled_izd_def)
  from 1 2 3 4 show ?thesis by blast
qed

text \<open>
  Claim C5. For every Book record whose edition is the string of code points 51, 45, 1077
  (the digit three, a hyphen and the Cyrillic letter ie), the output contains that
  string followed by a space, \<open>izd\<close>, a full stop, a space, the dash and a space; and
  \<open>example_book\<close> formats to exactly \<open>example_book_citation\<close>, the text of the spec.
\<close>

theorem book_third_edition:
  "(edition d = Some [51, 45, 1077] \<longrightarrow>
      (\<exists>s. fst (GOSTBook_substitute d lg) = Inr s
         \<and> sublist ([51, 45, 1077] @ ascii '' '' @ izd @ ascii ''. '' @ [8211] @ ascii '' '') s))
   \<and> fst (GOSTBook_substitute example_book lg) = Inr example_book_citation"
proof (intro conjI impI)
  assume e: "edition d = Some [51, 45, 1077]"
  let ?clause = "[51, 45, 1077] @ ascii '' '' @ izd @ ascii ''. '' @ [8211] @ ascii '' ''"
  from e have g: "GOSTBook_get_edition d = ?clause"
    by (simp add: GOSTBook_get_edition_def)
  have "fst (GOSTBook_substitute d lg) =
     Inr ((BookModel.authors d @ ascii '' '' @ BookModel.title d @ ascii ''. '' @ [8211] @ ascii '' '')
          @ ?clause @ (BookModel.city d @ ascii '': '' @ BookModel.publishing_house d
          @ ascii '', '' @ str_int (BookModel.year d) @ ascii ''. '' @ [8211] @ ascii '' ''
          @ str_int (BookModel.pages d) @ ascii '' '' @ [1089] @ ascii ''.''))"
    unfolding GOSTBook_text g by simp
  moreover have "sublist ?clause
     ((BookModel.authors d @ ascii '' '' @ BookModel.title d @ ascii ''. '' @ [8211] @ ascii '' '')
          @ ?clause @ (BookModel.city d @ ascii '': '' @ BookModel.publishing_house d
          @ ascii '', '' @ str_int (BookModel.year d) @ ascii ''. '' @ [8211] @ ascii '' ''
          @ str_int (BookModel.pages d) @ ascii '' '' @ [1089] @ ascii ''.''))"
    by (rule sublist_appendI)
  ultimately show "\<exists>s. fst (GOSTBook_substitute d lg) = Inr s \<and> sublist ?clause s"
    by blast
next
  have y: "str_int 2020 = [50, 48, 50, 48]" by code_simp
  have p: "str_int 999 = [57, 57, 57]" by code_simp
  show "fst (GOSTBook_substitute example_book lg) = Inr example_book_citation"
    unfolding GOSTBook_text
    by (simp add: example_book_def example_book_citation_def GOSTBook_get_edition_def
        ivanov_petrov_def nauka_kak_iskusstvo_def izd_def ascii_def y p)
qed

theorem book_third_edition_witness:
  "edition example_book = Some [51, 45, 1077]
   \<and> (\<exists>s. fst (GOSTBook_substitute example_book []) = Inr s
         \<and> sublist ([51, 45, 1077] @ ascii '' '' @ izd @ ascii ''. '' @ [8211] @ ascii '' '') s)"
proof -
  have e: "edition example_book = Some [51, 45, 1077]" by (simp add: example_book_def)
  from book_third_edition [of example_book "[]"] e show ?thesis by blast
qed

section \<open>The dissertation\<close>

text \<open>
  Claim C6. For every Dissertation record the output is the template with every field
  substituted verbatim (integers in decimal), the author's value at both places where
  the template names it.
\<close>

theorem dissertation_text:
  "fst (GOSTDissertation_substitute d lg) =
     Inr (author d @ ascii '' '' @ DissertationModel.title d @ ascii '': '' @ degree d @ ascii '' ''
          @ speciality d @ ascii '' '' @ nauk @ ascii '': '' @ code d @ ascii '' / '' @ author d
          @ ascii '' '' @ [8211] @ ascii '' '' @ DissertationModel.city d @ ascii '', ''
          @ str_int (DissertationModel.year d) @ ascii ''. '' @ [8211] @ ascii '' ''
          @ str_int (DissertationModel.pages d) @ ascii '' '' @ [1089] @ ascii ''.'')"
proof -
  have "Template_substitute GOSTDissertation_template
          [(''author'', PyStr (author d)),
           (''title'', PyStr (DissertationModel.title d)),
           (''degree'', PyStr (degree d)),
           (''speciality'', PyStr (speciality d)),
           (''code'', PyStr (code d)),
           (''city'', PyStr (DissertationModel.city d)),
           (''year'', PyInt (DissertationModel.year d)),
           (''pages'', PyInt (DissertationModel.pages d))]
        = Inr (author d @ ascii '' '' @ DissertationModel.title d @ ascii '': '' @ degree d
               @ ascii '' '' @ speciality d @ ascii '' '' @ nauk @ ascii '': '' @ code d
               @ ascii '' / '' @ author d @ ascii '' '' @ [8211] @ ascii '' ''
               @ DissertationModel.city d @ ascii '', '' @ str_int (DissertationModel.year d)
               @ ascii ''. '' @ [8211] @ ascii '' '' @ str_int (DissertationModel.pages d)
               @ ascii '' '' @ [1089] @ ascii ''.'')"
    by (simp add: GOSTDissertation_template_def nauk_def scan_eval)
  then show ?thesis
    by (simp add: GOSTDissertation_substitute_def Let_def)
qed

section \<open>Determinism and success of substitution\<close>


text \<open>
  Claim C9. For every record of each of the five kinds the matching formatter's
  \<open>substitute\<close> returns a string: no placeholder of its template lacks a value (KeyError),
  no delimiter is ill-formed (ValueError), and \<open>get_author\<close> does not fail.
\<close>

theorem substitute_succeeds:
  "(\<exists>s. fst (GOSTBook_substitute b lg) = Inr s)
   \<and> (\<exists>s. fst (GOSTInternetResource_substitute i lg) = Inr s)
   \<and> (\<exists>s. fst (GOSTCollectionArticle_substitute c lg) = Inr s)
   \<and> (\<exists>s. fst (GOSTJournalArticle_substitute j lg) = Inr s)
   \<and> (\<exists>s. fst (GOSTDissertation_substitute t lg) = Inr s)"
  unfolding GOSTBook_text GOSTInternetResource_text GOSTCollectionArticle_text
    GOSTJournalArticle_text GOSTDissertation_text
  by blast

end
